theory Spec2Isabelle
  imports Main "HOL-Library.Word" "HOL-Library.Sublist"
begin

section \<open>Time\<close>

text \<open>
  Go's \<^verbatim>\<open>time.Time\<close> is an instant; here it is the number of nanoseconds since the zero
  value of the type (January 1, year 1, 00:00:00 UTC), an unbounded integer, so instants
  before the zero time are negative. Wall clock and monotonic clock are one time line.
  \<^verbatim>\<open>time.Duration\<close> is an \<^verbatim>\<open>int64\<close> count of nanoseconds: a 64-bit word read with
  \<open>sint\<close>.
\<close>

type_synonym time = int
type_synonym duration = "64 word"

definition zeroTime :: time where
  "zeroTime = 0"

definition time_Second :: duration where
  "time_Second = 1000000000"

definition minDuration :: int where
  "minDuration = - (2 ^ 63)"

definition maxDuration :: int where
  "maxDuration = 2 ^ 63 - 1"

definition time_Before :: "time \<Rightarrow> time \<Rightarrow> bool" where
  "time_Before t u = (t < u)"

text \<open>\<^verbatim>\<open>t.Sub(u)\<close>: the difference, saturated at the least and the greatest duration.\<close>

definition time_Sub :: "time \<Rightarrow> time \<Rightarrow> duration" where
  "time_Sub t u =
     (let d = t - u
      in if d < minDuration then word_of_int minDuration
         else if maxDuration < d then word_of_int maxDuration
         else word_of_int d)"

text \<open>\<^verbatim>\<open>time.Since(t)\<close> is \<^verbatim>\<open>time.Now().Sub(t)\<close>; the clock reading is the first argument.\<close>

definition time_Since :: "time \<Rightarrow> time \<Rightarrow> duration" where
  "time_Since now t = time_Sub now t"

section \<open>Configuration and monitor\<close>

datatype callback = Callback nat

datatype error = Error string

record Config =
  HeartbeatInterval :: duration
  LivenessThreshold :: duration
  HeartbeatURL :: string
  HTTPTimeout :: duration
  Port :: int
  OnError :: "callback option"

text \<open>
  The struct \<^verbatim>\<open>heartbeat\<close>. \<open>client_Timeout\<close> is the \<^verbatim>\<open>Timeout\<close> of the
  \<^verbatim>\<open>http.Client\<close> the struct holds; the mutex is not a field here: every operation that
  locks it is one atomic function of the state.
\<close>

record heartbeat =
  heartbeatInterval :: duration
  livenessThreshold :: duration
  heartbeatURL :: string
  lastAlive :: time
  client_Timeout :: duration
  onError :: "callback option"
  started :: bool
  serverPort :: int

definition NewHeartbeat :: "Config \<Rightarrow> error + heartbeat" where
  "NewHeartbeat cfg =
     (if sint (LivenessThreshold cfg) \<le> 0 then
        Inl (Error ''liveness threshold must be positive'')
      else if sint (HeartbeatInterval cfg) \<le> 0 then
        Inl (Error ''heartbeat interval must be positive'')
      else if HTTPTimeout cfg \<noteq> 0 \<and> sint (HeartbeatInterval cfg) \<le> sint (HTTPTimeout cfg) then
        Inl (Error ''timeout must be less than heartbeat interval'')
      else if Port cfg < 0 \<or> 65535 < Port cfg then
        Inl (Error ''port must be in the range [0, 65535]'')
      else if HeartbeatURL cfg = [] \<and> Port cfg = 0 then
        Inl (Error ''heartbeat URL must be set'')
      else
        let timeout = HTTPTimeout cfg;
            timeout =
              (if timeout = 0 then
                 (let timeout = HeartbeatInterval cfg - time_Second
                  in if sint timeout < sint time_Second then time_Second else timeout)
               else timeout)
        in Inr \<lparr> heartbeatInterval = HeartbeatInterval cfg,
                 livenessThreshold = LivenessThreshold cfg,
                 heartbeatURL = HeartbeatURL cfg,
                 lastAlive = zeroTime,
                 client_Timeout = timeout,
                 onError = OnError cfg,
                 started = False,
                 serverPort = Port cfg \<rparr>)"

section \<open>Liveness state\<close>

definition Alive :: "heartbeat \<Rightarrow> time \<Rightarrow> heartbeat" where
  "Alive h at = (if time_Before (lastAlive h) at then h\<lparr>lastAlive := at\<rparr> else h)"

text \<open>A sequence of calls \<^verbatim>\<open>Alive(t1)\<close>, \<^verbatim>\<open>Alive(t2)\<close>, ... on one monitor.\<close>

fun Alive_calls :: "heartbeat \<Rightarrow> time list \<Rightarrow> heartbeat" where
  "Alive_calls h [] = h"
| "Alive_calls h (t # ts) = Alive_calls (Alive h t) ts"

text \<open>\<^verbatim>\<open>okUnlocked\<close> reads the clock; the reading is the argument \<open>now\<close>.\<close>

definition okUnlocked :: "heartbeat \<Rightarrow> time \<Rightarrow> bool" where
  "okUnlocked h now = (sint (time_Since now (lastAlive h)) < sint (livenessThreshold h))"

section \<open>Start\<close>

text \<open>The background tasks a call of \<^verbatim>\<open>Start\<close> launches.\<close>

datatype task = PushSchedule duration | HealthListener int

definition startHeartbeatLocked :: "heartbeat \<Rightarrow> task list" where
  "startHeartbeatLocked h =
     (if heartbeatURL h = [] then [] else [PushSchedule (heartbeatInterval h)])"

definition startHttpServerLocked :: "heartbeat \<Rightarrow> task list" where
  "startHttpServerLocked h =
     (if serverPort h = 0 then [] else [HealthListener (serverPort h)])"

definition Start :: "heartbeat \<Rightarrow> heartbeat \<times> task list" where
  "Start h =
     (if started h then (h, [])
      else let h' = h\<lparr>started := True\<rparr>
           in (h', startHeartbeatLocked h' @ startHttpServerLocked h'))"

text \<open>\<open>n\<close> calls of \<^verbatim>\<open>Start\<close> in a row, with every task they launch.\<close>

fun Start_calls :: "heartbeat \<Rightarrow> nat \<Rightarrow> heartbeat \<times> task list" where
  "Start_calls h 0 = (h, [])"
| "Start_calls h (Suc n) =
     (let (h', launched) = Start h;
          (h'', more) = Start_calls h' n
      in (h'', launched @ more))"

fun is_PushSchedule :: "task \<Rightarrow> bool" where
  "is_PushSchedule (PushSchedule _) = True"
| "is_PushSchedule (HealthListener _) = False"

fun is_HealthListener :: "task \<Rightarrow> bool" where
  "is_HealthListener (HealthListener _) = True"
| "is_HealthListener (PushSchedule _) = False"

section \<open>The push loop\<close>

text \<open>
  What \<^verbatim>\<open>h.client.Get\<close> returns: a transport error, or a response with its status and a
  body; reading the body with \<^verbatim>\<open>io.ReadAll\<close> gives an error or the bytes.
\<close>

datatype read_result = ReadAllError string | ReadAllOk string

record Response =
  StatusCode :: int
  Status :: string
  Body :: read_result

datatype get_result = GetError string | GetOk Response

record uptimeKumaPushResp =
  OK :: bool
  Msg :: string

text \<open>
  \<^verbatim>\<open>json.Unmarshal\<close> into an \<^verbatim>\<open>uptimeKumaPushResp\<close> is a parameter of the loop:
  \<open>None\<close> when it returns an error, otherwise the struct it filled.
\<close>

type_synonym unmarshal = "string \<Rightarrow> uptimeKumaPushResp option"

text \<open>What a tick does to the outside: the GET it sends, the callback it spawns.\<close>

datatype effect = HttpGet string | GoOnError callback error

text \<open>\<^verbatim>\<open>fmt.Errorf("heartbeat to '%s' failed: %s", url, detail)\<close>\<close>

definition failed_Errorf :: "string \<Rightarrow> string \<Rightarrow> error" where
  "failed_Errorf url detail =
     Error (''heartbeat to '' @ [CHR 0x27] @ url @ [CHR 0x27] @ '' failed: '' @ detail)"

text \<open>\<^verbatim>\<open>if h.onError != nil { go h.onError(err) }\<close>\<close>

definition report_error :: "heartbeat \<Rightarrow> error \<Rightarrow> effect list" where
  "report_error h err = (case onError h of None \<Rightarrow> [] | Some cb \<Rightarrow> [GoOnError cb err])"

text \<open>
  One iteration of the loop in \<^verbatim>\<open>startHeartbeatLocked\<close>, at clock reading \<open>now\<close>, where
  \<open>res\<close> is what the GET returns if the iteration sends it.
\<close>

definition heartbeat_tick :: "unmarshal \<Rightarrow> heartbeat \<Rightarrow> time \<Rightarrow> get_result \<Rightarrow> effect list" where
  "heartbeat_tick json_Unmarshal h now res =
     (if \<not> okUnlocked h now then []
      else
        HttpGet (heartbeatURL h) #
        (case res of
           GetError e \<Rightarrow> report_error h (failed_Errorf (heartbeatURL h) e)
         | GetOk resp \<Rightarrow>
             if StatusCode resp < 200 \<or> 299 < StatusCode resp then
               report_error h (failed_Errorf (heartbeatURL h) (Status resp))
             else
               (case Body resp of
                  ReadAllError _ \<Rightarrow> []
                | ReadAllOk bodyBytes \<Rightarrow>
                    (case json_Unmarshal bodyBytes of
                       Some ukRespBody \<Rightarrow>
                         if \<not> OK ukRespBody then
                           report_error h (failed_Errorf (heartbeatURL h) (Msg ukRespBody))
                         else []
                     | None \<Rightarrow> []))))"

text \<open>
  The loop over the ticker's channel, interleaved with the caller's reports: the events
  are the calls of \<^verbatim>\<open>Alive\<close> and the ticks, in the order in which they take the lock.
\<close>

datatype event = AliveCall time | Tick time get_result

fun heartbeat_loop :: "unmarshal \<Rightarrow> heartbeat \<Rightarrow> event list \<Rightarrow> effect list" where
  "heartbeat_loop json_Unmarshal h [] = []"
| "heartbeat_loop json_Unmarshal h (AliveCall t # es) =
     heartbeat_loop json_Unmarshal (Alive h t) es"
| "heartbeat_loop json_Unmarshal h (Tick now res # es) =
     heartbeat_tick json_Unmarshal h now res @ heartbeat_loop json_Unmarshal h es"

fun requests :: "effect list \<Rightarrow> string list" where
  "requests [] = []"
| "requests (HttpGet url # es) = url # requests es"
| "requests (GoOnError _ _ # es) = requests es"

fun error_callbacks :: "effect list \<Rightarrow> string list" where
  "error_callbacks [] = []"
| "error_callbacks (HttpGet _ # es) = error_callbacks es"
| "error_callbacks (GoOnError _ (Error msg) # es) = msg # error_callbacks es"

section \<open>The health endpoint\<close>

text \<open>
  The fields of \<^verbatim>\<open>http.Request\<close> that decide the answer: the method, the path of the URL
  as the mux reads it, and the request target as it was sent.
\<close>

record Request =
  Method :: string
  Path :: string
  RequestURI :: string

text \<open>What the handler has written to its \<^verbatim>\<open>http.ResponseWriter\<close> when it returns.\<close>

record Written =
  status :: int
  body :: string

text \<open>\<^verbatim>\<open>http.Error(w, msg, code)\<close> writes the status and the message with a newline.\<close>

definition http_Error :: "string \<Rightarrow> int \<Rightarrow> Written" where
  "http_Error msg code = \<lparr> status = code, body = msg @ [CHR 0x0A] \<rparr>"

definition StatusOK :: int where
  "StatusOK = 200"

definition StatusMethodNotAllowed :: int where
  "StatusMethodNotAllowed = 405"

definition StatusServiceUnavailable :: int where
  "StatusServiceUnavailable = 503"

text \<open>The handler registered for the pattern \<^verbatim>\<open>/\<close>, run at clock reading \<open>now\<close>.\<close>

definition health_handler :: \<open>heartbeat \<Rightarrow> time \<Rightarrow> Request \<Rightarrow> Written\<close> where
  \<open>health_handler h now r =
     (if Method r \<noteq> ''GET'' then http_Error ''Method Not Allowed'' StatusMethodNotAllowed
      else if okUnlocked h now then \<lparr> status = StatusOK, body = ''{"ok":true}'' \<rparr>
      else \<lparr> status = StatusServiceUnavailable, body = ''{"ok":false}'' \<rparr>)\<close>

subsection \<open>The server and the mux in front of the handler\<close>

text \<open>
  \<^verbatim>\<open>startHttpServerLocked\<close> registers the handler for the pattern \<^verbatim>\<open>/\<close> on a new
  \<^verbatim>\<open>http.ServeMux\<close> and serves it with \<^verbatim>\<open>http.ListenAndServe\<close>. What the package
  \<^verbatim>\<open>net/http\<close> documents of the two, with one pattern \<^verbatim>\<open>/\<close> registered:
  \<^item> a request for the target \<^verbatim>\<open>*\<close> never reaches the handler (the server answers
    \<^verbatim>\<open>OPTIONS *\<close> itself, the mux answers any other method with a bad-request status);
  \<^item> for a method other than \<^verbatim>\<open>CONNECT\<close>, a path that is not in canonical form is answered
    with a redirect to the cleaned path;
  \<^item> the pattern \<^verbatim>\<open>/\<close> matches every path that starts with a slash.

  The cleaned path is that of \<^verbatim>\<open>path.Clean\<close> on a rooted path (repeated slashes become one,
  \<^verbatim>\<open>.\<close> elements go, a \<^verbatim>\<open>..\<close> element goes with the element before it, or alone at the
  root), with the trailing slash of the request kept.
\<close>

fun split_slash :: "string \<Rightarrow> string list" where
  "split_slash [] = [[]]"
| "split_slash (c # cs) =
     (if c = CHR ''/'' then [] # split_slash cs
      else (case split_slash cs of
              [] \<Rightarrow> [[c]]
            | e # es \<Rightarrow> (c # e) # es))"

fun clean_elements :: "string list \<Rightarrow> string list \<Rightarrow> string list" where
  "clean_elements [] kept = rev kept"
| "clean_elements (e # es) kept =
     (if e = [] \<or> e = ''.'' then clean_elements es kept
      else if e = ''..'' then clean_elements es (tl kept)
      else clean_elements es (e # kept))"

fun join_slash :: "string list \<Rightarrow> string" where
  "join_slash [] = []"
| "join_slash [e] = e"
| "join_slash (e # es) = e @ CHR ''/'' # join_slash es"

definition path_Clean_rooted :: "string \<Rightarrow> string" where
  "path_Clean_rooted p = CHR ''/'' # join_slash (clean_elements (split_slash p) [])"

definition cleanPath :: "string \<Rightarrow> string" where
  "cleanPath p =
     (if p = [] then ''/''
      else
        let p = (if hd p \<noteq> CHR ''/'' then CHR ''/'' # p else p);
            np = path_Clean_rooted p
        in if last p = CHR ''/'' \<and> np \<noteq> ''/'' then np @ ''/'' else np)"

text \<open>
  The answer of the endpoint to one request: what the handler wrote, a redirect to
  another path, or an answer of the server or the mux in which the handler has no part.
\<close>

datatype endpoint_reply = ByHandler Written | RedirectTo string | NotByHandler

definition serve_request :: "heartbeat \<Rightarrow> time \<Rightarrow> Request \<Rightarrow> endpoint_reply" where
  "serve_request h now r =
     (if RequestURI r = ''*'' then NotByHandler
      else if Method r = ''CONNECT'' then
        (if take 1 (Path r) = ''/'' then ByHandler (health_handler h now r) else NotByHandler)
      else if cleanPath (Path r) \<noteq> Path r then RedirectTo (cleanPath (Path r))
      else ByHandler (health_handler h now r))"

definition get_request :: "string \<Rightarrow> Request" where
  "get_request p = \<lparr> Method = ''GET'', Path = p, RequestURI = p \<rparr>"

definition post_request :: "string \<Rightarrow> Request" where
  "post_request p = \<lparr> Method = ''POST'', Path = p, RequestURI = p \<rparr>"

section \<open>Concrete instances\<close>

text \<open>
  The configuration of the usage example in the README (30 s interval, 60 s threshold, a
  push URL, an error callback), and the monitor \<^verbatim>\<open>NewHeartbeat\<close> builds from it.
\<close>

definition readme_Config :: Config where
  "readme_Config =
     \<lparr> HeartbeatInterval = 30 * time_Second,
       LivenessThreshold = 60 * time_Second,
       HeartbeatURL = ''https://uptimekuma.example.com:9001/api/push/1234abcd?status=up&msg=OK&ping='',
       HTTPTimeout = 0,
       Port = 0,
       OnError = Some (Callback 0) \<rparr>"

definition readme_heartbeat :: heartbeat where
  "readme_heartbeat =
     \<lparr> heartbeatInterval = 30 * time_Second,
       livenessThreshold = 60 * time_Second,
       heartbeatURL = ''https://uptimekuma.example.com:9001/api/push/1234abcd?status=up&msg=OK&ping='',
       lastAlive = zeroTime,
       client_Timeout = 29 * time_Second,
       onError = Some (Callback 0),
       started = False,
       serverPort = 0 \<rparr>"

text \<open>
  A stand-in for \<^verbatim>\<open>json.Unmarshal\<close> on three bodies only: a negative acknowledgement, a
  positive one, and anything else taken as not parseable. It is used at concrete inputs,
  never in a general statement.
\<close>

definition spec_bodies_Unmarshal :: unmarshal where
  \<open>spec_bodies_Unmarshal bodyBytes =
     (if bodyBytes = ''{"ok":false,"msg":"bad"}'' then Some \<lparr> OK = False, Msg = ''bad'' \<rparr>
      else if bodyBytes = ''{"ok":true}'' then Some \<lparr> OK = True, Msg = [] \<rparr>
      else None)\<close>

definition status_200 :: "read_result \<Rightarrow> Response" where
  "status_200 b = \<lparr> StatusCode = 200, Status = ''200 OK'', Body = b \<rparr>"

text \<open>
  A monitor with the health endpoint only (no push URL, an explicit HTTP timeout), and the
  README monitor with the health endpoint added.
\<close>

definition port_only_Config :: Config where
  "port_only_Config =
     \<lparr> HeartbeatInterval = 30 * time_Second,
       LivenessThreshold = 60 * time_Second,
       HeartbeatURL = [],
       HTTPTimeout = 5 * time_Second,
       Port = 8080,
       OnError = None \<rparr>"

definition port_only_heartbeat :: heartbeat where
  "port_only_heartbeat =
     \<lparr> heartbeatInterval = 30 * time_Second,
       livenessThreshold = 60 * time_Second,
       heartbeatURL = [],
       lastAlive = zeroTime,
       client_Timeout = 5 * time_Second,
       onError = None,
       started = False,
       serverPort = 8080 \<rparr>"

text \<open>The README configuration with an interval of ten seconds, and of half a second.\<close>

definition ten_seconds_Config :: Config where
  "ten_seconds_Config = readme_Config\<lparr>HeartbeatInterval := 10 * time_Second\<rparr>"

definition ten_seconds_heartbeat :: heartbeat where
  "ten_seconds_heartbeat =
     readme_heartbeat\<lparr>heartbeatInterval := 10 * time_Second, client_Timeout := 9 * time_Second\<rparr>"

definition half_second_Config :: Config where
  "half_second_Config = readme_Config\<lparr>HeartbeatInterval := 500000000\<rparr>"

definition half_second_heartbeat :: heartbeat where
  "half_second_heartbeat =
     readme_heartbeat\<lparr>heartbeatInterval := 500000000, client_Timeout := time_Second\<rparr>"

definition both_Config :: Config where
  "both_Config = readme_Config\<lparr>Port := 8080\<rparr>"

definition both_heartbeat :: heartbeat where
  "both_heartbeat = readme_heartbeat\<lparr>serverPort := 8080\<rparr>"

section \<open>Durations as integers\<close>

lemma sint_time_Second: "sint time_Second = 1000000000"
  by (simp add: time_Second_def)

lemma sint_range: "- (2 ^ 63) \<le> sint (d :: duration) \<and> sint d < 2 ^ 63"
  using sint_ge [of d] sint_lt [of d] by simp

lemma sint_word_of_int_in_range:
  assumes "- (2 ^ 63) \<le> k" and "k < 2 ^ 63"
  shows "sint (word_of_int k :: duration) = k"
proof -
  have "sint (word_of_int k :: duration) = signed_take_bit 63 k"
    by (simp add: sint_sbintrunc')
  also have "\<dots> = k"
    using assms by (intro signed_take_bit_int_eq_self) simp_all
  finally show ?thesis .
qed

lemma sint_minus_Second:
  assumes "0 < sint (d :: duration)"
  shows "sint (d - time_Second) = sint d - 1000000000"
proof -
  have up: "sint d < 2 ^ 63"
    using sint_range [of d] by simp
  have "sint (d - time_Second) = signed_take_bit 63 (sint d - 1000000000)"
    by (simp add: sint_word_diff sint_time_Second)
  also have "\<dots> = sint d - 1000000000"
    using assms up by (intro signed_take_bit_int_eq_self) simp_all
  finally show ?thesis .
qed

lemma sint_time_Sub: "sint (time_Sub t u) = max minDuration (min maxDuration (t - u))"
proof -
  have lo: "sint (word_of_int minDuration :: duration) = minDuration"
    by (rule sint_word_of_int_in_range) (simp_all add: minDuration_def)
  have hi: "sint (word_of_int maxDuration :: duration) = maxDuration"
    by (rule sint_word_of_int_in_range) (simp_all add: maxDuration_def)
  have mid: "sint (word_of_int (t - u) :: duration) = t - u"
    if "minDuration \<le> t - u" and "t - u \<le> maxDuration"
    using that by (intro sint_word_of_int_in_range) (simp_all add: minDuration_def maxDuration_def)
  have "minDuration < maxDuration"
    by (simp add: minDuration_def maxDuration_def)
  then show ?thesis
    using lo hi mid by (auto simp: time_Sub_def Let_def)
qed

section \<open>Reports\<close>

lemma Alive_max: "Alive h at = h\<lparr>lastAlive := max (lastAlive h) at\<rparr>"
  by (simp add: Alive_def time_Before_def max_def)

lemma lastAlive_Alive_calls:
  "lastAlive (Alive_calls h ts) = Max (insert (lastAlive h) (set ts))"
proof (induction ts arbitrary: h)
  case Nil
  show ?case by simp
next
  case (Cons t ts)
  have "lastAlive (Alive_calls h (t # ts)) = Max (insert (max (lastAlive h) t) (set ts))"
    by (simp add: Cons.IH Alive_max)
  also have "\<dots> = Max (insert (lastAlive h) (insert t (set ts)))"
  proof (cases "set ts = {}")
    case True
    then show ?thesis by (simp add: max.commute)
  next
    case False
    then show ?thesis by (simp add: max.assoc)
  qed
  finally show ?case by simp
qed

lemma livenessThreshold_Alive_calls:
  "livenessThreshold (Alive_calls h ts) = livenessThreshold h"
  by (induction ts arbitrary: h) (simp_all add: Alive_max)

section \<open>Construction\<close>

lemma NewHeartbeat_Inr_fields:
  assumes "NewHeartbeat cfg = Inr h"
  shows "0 < sint (LivenessThreshold cfg)" and "0 < sint (HeartbeatInterval cfg)"
    and "client_Timeout h =
           (if HTTPTimeout cfg = 0 then
              (if sint (HeartbeatInterval cfg - time_Second) < sint time_Second then time_Second
               else HeartbeatInterval cfg - time_Second)
            else HTTPTimeout cfg)"
    and "started h = False" and "lastAlive h = zeroTime"
    and "heartbeatURL h = HeartbeatURL cfg" and "serverPort h = Port cfg"
    and "livenessThreshold h = LivenessThreshold cfg"
  using assms by (auto simp: NewHeartbeat_def Let_def split: if_splits)

lemma NewHeartbeat_port_only: "NewHeartbeat port_only_Config = Inr port_only_heartbeat"
  by (simp add: NewHeartbeat_def port_only_Config_def port_only_heartbeat_def time_Second_def
        zeroTime_def)

lemma NewHeartbeat_both: "NewHeartbeat both_Config = Inr both_heartbeat"
  by (simp add: NewHeartbeat_def both_Config_def both_heartbeat_def readme_Config_def
        readme_heartbeat_def time_Second_def zeroTime_def)

lemma NewHeartbeat_ten_seconds: "NewHeartbeat ten_seconds_Config = Inr ten_seconds_heartbeat"
  by (simp add: NewHeartbeat_def ten_seconds_Config_def ten_seconds_heartbeat_def readme_Config_def
        readme_heartbeat_def time_Second_def zeroTime_def)

lemma NewHeartbeat_half_second: "NewHeartbeat half_second_Config = Inr half_second_heartbeat"
  by (simp add: NewHeartbeat_def half_second_Config_def half_second_heartbeat_def readme_Config_def
        readme_heartbeat_def time_Second_def zeroTime_def)

lemma NewHeartbeat_readme: "NewHeartbeat readme_Config = Inr readme_heartbeat"
  by (simp add: NewHeartbeat_def readme_Config_def readme_heartbeat_def time_Second_def zeroTime_def)

text \<open>
  Claim C1, as stated, at a concrete input: on the new monitor of the README configuration,
  whose \<open>lastAlive\<close> is the zero time, the single call \<^verbatim>\<open>Alive(t)\<close> with \<open>t\<close> one nanosecond
  before the zero time leaves \<open>lastAlive\<close> at the zero time, which is not the maximum of
  the reported timestamps.
\<close>

theorem C1_counterexample:
  "NewHeartbeat readme_Config = Inr readme_heartbeat \<and>
   lastAlive (Alive_calls readme_heartbeat [- 1]) \<noteq> Max (set [- 1])"
  by (simp add: NewHeartbeat_readme)
     (simp add: Alive_def time_Before_def readme_heartbeat_def zeroTime_def)

text \<open>
  Claim C1 (amended): after any sequence of calls \<^verbatim>\<open>Alive(t1)\<close>, \<^verbatim>\<open>Alive(t2)\<close>, ... the
  stored \<open>lastAlive\<close> is the maximum of its value before the calls and of the reported
  timestamps, whatever their order (the maximum is taken over a set); it is the maximum
  of the reported timestamps alone when there is a report that is not before the value
  \<open>lastAlive\<close> had; a new monitor starts from the zero time. Each call sets
  \<open>lastAlive\<close> to \<open>max lastAlive at\<close>, changes nothing else, has no failing outcome and
  never decreases \<open>lastAlive\<close>.
\<close>

theorem C1_lastAlive_is_max:
  "lastAlive (Alive_calls h ts) = Max (insert (lastAlive h) (set ts))
   \<and> (ts \<noteq> [] \<and> lastAlive h \<le> Max (set ts) \<longrightarrow> lastAlive (Alive_calls h ts) = Max (set ts))
   \<and> (NewHeartbeat cfg = Inr h0 \<longrightarrow> lastAlive (Alive_calls h0 ts) = Max (insert zeroTime (set ts)))
   \<and> Alive h at = h\<lparr>lastAlive := max (lastAlive h) at\<rparr>
   \<and> lastAlive h \<le> lastAlive (Alive h at)
   \<and> lastAlive h \<le> lastAlive (Alive_calls h ts)"
proof -
  have a: "lastAlive (Alive_calls h ts) = Max (insert (lastAlive h) (set ts))" for h
    by (rule lastAlive_Alive_calls)
  have b: "lastAlive (Alive_calls h ts) = Max (set ts)"
    if "ts \<noteq> []" and "lastAlive h \<le> Max (set ts)"
  proof -
    have "Max (insert (lastAlive h) (set ts)) = max (lastAlive h) (Max (set ts))"
      using that(1) by simp
    with that(2) show ?thesis by (simp add: a)
  qed
  have c: "lastAlive h0 = zeroTime" if "NewHeartbeat cfg = Inr h0"
    using that by (auto simp: NewHeartbeat_def Let_def split: if_splits)
  have d: "lastAlive h \<le> lastAlive (Alive h at)"
    by (simp add: Alive_max)
  have e: "lastAlive h \<le> lastAlive (Alive_calls h ts)"
    by (simp add: a)
  show ?thesis
    using a b c d e Alive_max by metis
qed

theorem C1_lastAlive_is_max_witness:
  "[5, 3, 9] \<noteq> [] \<and> lastAlive readme_heartbeat \<le> Max (set [5, 3, 9])
   \<and> NewHeartbeat readme_Config = Inr readme_heartbeat
   \<and> lastAlive (Alive_calls readme_heartbeat [5, 3, 9]) = 9
   \<and> lastAlive (Alive_calls readme_heartbeat [5, 3, 9]) = Max (set [5, 3, 9])"
  using C1_lastAlive_is_max [of readme_heartbeat "[5, 3, 9]" readme_Config readme_heartbeat 0]
  by (simp add: NewHeartbeat_readme) (simp add: readme_heartbeat_def zeroTime_def)

section \<open>The liveness predicate\<close>

lemma okUnlocked_int:
  "okUnlocked h now =
     (max minDuration (min maxDuration (now - lastAlive h)) < sint (livenessThreshold h))"
  by (simp add: okUnlocked_def time_Since_def sint_time_Sub)

lemma okUnlocked_inside:
  assumes "lastAlive h \<le> now" and "now < lastAlive h + sint (livenessThreshold h)"
  shows "okUnlocked h now"
proof -
  have "sint (livenessThreshold h) < 2 ^ 63"
    using sint_range [of "livenessThreshold h"] by simp
  with assms show ?thesis
    by (simp add: okUnlocked_int minDuration_def maxDuration_def)
qed

lemma okUnlocked_outside:
  assumes "lastAlive h + sint (livenessThreshold h) \<le> now"
  shows "\<not> okUnlocked h now"
proof -
  have "- (2 ^ 63) \<le> sint (livenessThreshold h)" and "sint (livenessThreshold h) < 2 ^ 63"
    using sint_range [of "livenessThreshold h"] by simp_all
  with assms show ?thesis
    by (simp add: okUnlocked_int minDuration_def maxDuration_def)
qed

lemma okUnlocked_positive_threshold:
  assumes "0 < sint (livenessThreshold h)"
  shows "okUnlocked h now = (now - lastAlive h < sint (livenessThreshold h))"
proof -
  have "sint (livenessThreshold h) < 2 ^ 63"
    using sint_range [of "livenessThreshold h"] by simp
  with assms show ?thesis
    by (auto simp: okUnlocked_int minDuration_def maxDuration_def)
qed

lemma readme_report:
  "lastAlive (Alive readme_heartbeat 1000) = 1000
   \<and> sint (livenessThreshold (Alive readme_heartbeat 1000)) = 60000000000"
  by (simp add: Alive_max readme_heartbeat_def zeroTime_def time_Second_def)

lemma readme_alive: "okUnlocked (Alive readme_heartbeat 1000) 2000"
  by (rule okUnlocked_inside) (simp_all add: readme_report)

lemma readme_alive_fields:
  "onError (Alive readme_heartbeat 1000) = Some (Callback 0)
   \<and> heartbeatURL (Alive readme_heartbeat 1000) =
       ''https://uptimekuma.example.com:9001/api/push/1234abcd?status=up&msg=OK&ping=''"
  by (simp add: Alive_max readme_heartbeat_def)

text \<open>
  Claim C2: the liveness predicate read at clock time \<open>now\<close> is
  \<open>now - lastAlive < livenessThreshold\<close>, a function of the state and of the clock
  reading alone: so it is for every positive threshold, hence for every monitor that
  \<^verbatim>\<open>NewHeartbeat\<close> built, after any reports (there the saturation of the subtraction
  changes nothing). With the last report at \<open>T = lastAlive\<close> and threshold \<open>D\<close>, a query
  at any time in \<open>[T, T + D)\<close> answers alive and a query at any time from \<open>T + D\<close> on
  answers not alive.
\<close>

theorem C2_okUnlocked_window:
  "(0 < sint (livenessThreshold h) \<longrightarrow>
      okUnlocked h now = (now - lastAlive h < sint (livenessThreshold h)))
   \<and> (NewHeartbeat cfg = Inr h0 \<longrightarrow>
        okUnlocked (Alive_calls h0 ts) now =
          (now - lastAlive (Alive_calls h0 ts) < sint (LivenessThreshold cfg)))
   \<and> (lastAlive h \<le> now \<and> now < lastAlive h + sint (livenessThreshold h) \<longrightarrow> okUnlocked h now)
   \<and> (lastAlive h + sint (livenessThreshold h) \<le> now \<longrightarrow> \<not> okUnlocked h now)"
proof -
  have "okUnlocked (Alive_calls h0 ts) now =
          (now - lastAlive (Alive_calls h0 ts) < sint (LivenessThreshold cfg))"
    if new: "NewHeartbeat cfg = Inr h0"
  proof -
    have "livenessThreshold (Alive_calls h0 ts) = LivenessThreshold cfg"
      using NewHeartbeat_Inr_fields(8) [OF new] by (simp add: livenessThreshold_Alive_calls)
    moreover have "0 < sint (LivenessThreshold cfg)"
      by (rule NewHeartbeat_Inr_fields(1) [OF new])
    ultimately show ?thesis
      using okUnlocked_positive_threshold [of "Alive_calls h0 ts" now] by simp
  qed
  then show ?thesis
    using okUnlocked_positive_threshold okUnlocked_inside okUnlocked_outside by blast
qed

theorem C2_okUnlocked_window_witness:
  "0 < sint (livenessThreshold (Alive readme_heartbeat 1000))
   \<and> lastAlive (Alive readme_heartbeat 1000) \<le> 60000000999
   \<and> 60000000999 < lastAlive (Alive readme_heartbeat 1000)
        + sint (livenessThreshold (Alive readme_heartbeat 1000))
   \<and> okUnlocked (Alive readme_heartbeat 1000) 60000000999
   \<and> lastAlive (Alive readme_heartbeat 1000)
        + sint (livenessThreshold (Alive readme_heartbeat 1000)) \<le> 60000001000
   \<and> \<not> okUnlocked (Alive readme_heartbeat 1000) 60000001000
   \<and> NewHeartbeat readme_Config = Inr readme_heartbeat
   \<and> okUnlocked (Alive_calls readme_heartbeat [1000]) 60000000999 =
        (60000000999 - lastAlive (Alive_calls readme_heartbeat [1000])
           < sint (LivenessThreshold readme_Config))"
  using C2_okUnlocked_window [of "Alive readme_heartbeat 1000" 60000000999 readme_Config
          readme_heartbeat "[1000]"]
        C2_okUnlocked_window [of "Alive readme_heartbeat 1000" 60000001000 readme_Config
          readme_heartbeat "[1000]"]
  by (simp add: readme_report NewHeartbeat_readme) (simp add: readme_Config_def time_Second_def)

section \<open>Push ticks\<close>

lemma heartbeat_tick_2xx:
  assumes "okUnlocked h now" and "200 \<le> StatusCode resp" and "StatusCode resp \<le> 299"
  shows "heartbeat_tick json_Unmarshal h now (GetOk resp) =
           HttpGet (heartbeatURL h) #
           (case Body resp of
              ReadAllError _ \<Rightarrow> []
            | ReadAllOk bodyBytes \<Rightarrow>
                (case json_Unmarshal bodyBytes of
                   Some ukRespBody \<Rightarrow>
                     if \<not> OK ukRespBody then
                       report_error h (failed_Errorf (heartbeatURL h) (Msg ukRespBody))
                     else []
                 | None \<Rightarrow> []))"
  using assms by (simp add: heartbeat_tick_def)

text \<open>
  Claim C3: on a tick that sends the GET and receives a 2xx response whose body is read:
  if the body unmarshals to an acknowledgement with \<open>ok\<close> false, the tick spawns the
  configured error callback exactly once, with the message
  \<^verbatim>\<open>heartbeat to '<url>' failed: <msg>\<close>, which ends with the acknowledgement's \<open>msg\<close>;
  if it unmarshals with \<open>ok\<close> true, or does not unmarshal, the tick spawns no callback.
\<close>

theorem C3_acknowledgement:
  assumes "okUnlocked h now" and "200 \<le> StatusCode resp" and "StatusCode resp \<le> 299"
    and "Body resp = ReadAllOk bodyBytes"
  shows "(json_Unmarshal bodyBytes = Some ack \<and> \<not> OK ack \<and> onError h = Some cb \<longrightarrow>
            heartbeat_tick json_Unmarshal h now (GetOk resp) =
              [HttpGet (heartbeatURL h), GoOnError cb (failed_Errorf (heartbeatURL h) (Msg ack))]
            \<and> error_callbacks (heartbeat_tick json_Unmarshal h now (GetOk resp)) =
                [''heartbeat to '' @ [CHR 0x27] @ heartbeatURL h @ [CHR 0x27] @ '' failed: '' @ Msg ack]
            \<and> (\<exists>m. error_callbacks (heartbeat_tick json_Unmarshal h now (GetOk resp)) = [m]
                  \<and> suffix (Msg ack) m))
       \<and> (json_Unmarshal bodyBytes = Some ack \<and> OK ack \<longrightarrow>
            heartbeat_tick json_Unmarshal h now (GetOk resp) = [HttpGet (heartbeatURL h)]
            \<and> error_callbacks (heartbeat_tick json_Unmarshal h now (GetOk resp)) = [])
       \<and> (json_Unmarshal bodyBytes = None \<longrightarrow>
            heartbeat_tick json_Unmarshal h now (GetOk resp) = [HttpGet (heartbeatURL h)]
            \<and> error_callbacks (heartbeat_tick json_Unmarshal h now (GetOk resp)) = [])"
proof -
  note tick = heartbeat_tick_2xx [OF assms(1-3), of json_Unmarshal]
  have neg: "heartbeat_tick json_Unmarshal h now (GetOk resp) =
               [HttpGet (heartbeatURL h), GoOnError cb (failed_Errorf (heartbeatURL h) (Msg ack))]"
    if "json_Unmarshal bodyBytes = Some ack" and "\<not> OK ack" and "onError h = Some cb"
    using that assms(4) by (simp add: tick report_error_def)
  have msg: "error_callbacks [HttpGet (heartbeatURL h),
                 GoOnError cb (failed_Errorf (heartbeatURL h) (Msg ack))] =
               [''heartbeat to '' @ [CHR 0x27] @ heartbeatURL h @ [CHR 0x27] @ '' failed: '' @ Msg ack]"
    by (simp add: failed_Errorf_def)
  have suf: "suffix (Msg ack)
               (''heartbeat to '' @ [CHR 0x27] @ heartbeatURL h @ [CHR 0x27] @ '' failed: '' @ Msg ack)"
    unfolding suffix_def
    by (rule exI [of _ "''heartbeat to '' @ [CHR 0x27] @ heartbeatURL h @ [CHR 0x27] @ '' failed: ''"])
       simp
  have pos: "heartbeat_tick json_Unmarshal h now (GetOk resp) = [HttpGet (heartbeatURL h)]"
    if "json_Unmarshal bodyBytes = Some ack" and "OK ack"
    using that assms(4) by (simp add: tick)
  have unp: "heartbeat_tick json_Unmarshal h now (GetOk resp) = [HttpGet (heartbeatURL h)]"
    if "json_Unmarshal bodyBytes = None"
    using that assms(4) by (simp add: tick)
  show ?thesis
  proof (intro conjI impI)
    assume a: "json_Unmarshal bodyBytes = Some ack \<and> \<not> OK ack \<and> onError h = Some cb"
    show "heartbeat_tick json_Unmarshal h now (GetOk resp) =
            [HttpGet (heartbeatURL h), GoOnError cb (failed_Errorf (heartbeatURL h) (Msg ack))]"
      using a neg by blast
    show "error_callbacks (heartbeat_tick json_Unmarshal h now (GetOk resp)) =
            [''heartbeat to '' @ [CHR 0x27] @ heartbeatURL h @ [CHR 0x27] @ '' failed: '' @ Msg ack]"
      using a neg msg by simp
    then show "\<exists>m. error_callbacks (heartbeat_tick json_Unmarshal h now (GetOk resp)) = [m]
                 \<and> suffix (Msg ack) m"
      using suf by blast
  next
    assume a: "json_Unmarshal bodyBytes = Some ack \<and> OK ack"
    then show "heartbeat_tick json_Unmarshal h now (GetOk resp) = [HttpGet (heartbeatURL h)]"
      using pos by blast
    then show "error_callbacks (heartbeat_tick json_Unmarshal h now (GetOk resp)) = []"
      by simp
  next
    assume a: "json_Unmarshal bodyBytes = None"
    then show "heartbeat_tick json_Unmarshal h now (GetOk resp) = [HttpGet (heartbeatURL h)]"
      using unp by blast
    then show "error_callbacks (heartbeat_tick json_Unmarshal h now (GetOk resp)) = []"
      by simp
  qed
qed

theorem C3_acknowledgement_witness:
  \<open>okUnlocked (Alive readme_heartbeat 1000) 2000
   \<and> 200 \<le> StatusCode (status_200 (ReadAllOk ''{"ok":false,"msg":"bad"}''))
   \<and> StatusCode (status_200 (ReadAllOk ''{"ok":false,"msg":"bad"}'')) \<le> 299
   \<and> spec_bodies_Unmarshal ''{"ok":false,"msg":"bad"}'' = Some \<lparr> OK = False, Msg = ''bad'' \<rparr>
   \<and> error_callbacks (heartbeat_tick spec_bodies_Unmarshal (Alive readme_heartbeat 1000) 2000
        (GetOk (status_200 (ReadAllOk ''{"ok":false,"msg":"bad"}'')))) =
      [''heartbeat to '' @ [CHR 0x27] @
         ''https://uptimekuma.example.com:9001/api/push/1234abcd?status=up&msg=OK&ping=''
         @ [CHR 0x27] @ '' failed: bad'']
   \<and> spec_bodies_Unmarshal ''{"ok":true}'' = Some \<lparr> OK = True, Msg = [] \<rparr>
   \<and> error_callbacks (heartbeat_tick spec_bodies_Unmarshal (Alive readme_heartbeat 1000) 2000
        (GetOk (status_200 (ReadAllOk ''{"ok":true}'')))) = []
   \<and> spec_bodies_Unmarshal ''<html>'' = None
   \<and> error_callbacks (heartbeat_tick spec_bodies_Unmarshal (Alive readme_heartbeat 1000) 2000
        (GetOk (status_200 (ReadAllOk ''<html>'')))) = []\<close>
  using
    C3_acknowledgement [of "Alive readme_heartbeat 1000" 2000
      \<open>status_200 (ReadAllOk ''{"ok":false,"msg":"bad"}'')\<close> \<open>''{"ok":false,"msg":"bad"}''\<close>
      spec_bodies_Unmarshal \<open>\<lparr> OK = False, Msg = ''bad'' \<rparr>\<close> "Callback 0"]
    C3_acknowledgement [of "Alive readme_heartbeat 1000" 2000
      \<open>status_200 (ReadAllOk ''{"ok":true}'')\<close> \<open>''{"ok":true}''\<close>
      spec_bodies_Unmarshal \<open>\<lparr> OK = True, Msg = [] \<rparr>\<close> "Callback 0"]
    C3_acknowledgement [of "Alive readme_heartbeat 1000" 2000
      \<open>status_200 (ReadAllOk ''<html>'')\<close> \<open>''<html>''\<close>
      spec_bodies_Unmarshal \<open>\<lparr> OK = True, Msg = [] \<rparr>\<close> "Callback 0"]
  by (simp add: readme_alive readme_alive_fields status_200_def spec_bodies_Unmarshal_def
        failed_Errorf_def)

lemma readme_not_alive: "\<not> okUnlocked (Alive readme_heartbeat 1000) 60000001000"
  by (rule okUnlocked_outside) (simp add: readme_report)

text \<open>
  Claim C4: a tick at which the liveness predicate is false does nothing at all: it sends
  no request and spawns no error callback, and the loop goes on with the events that
  follow as if the tick had not been there.
\<close>

theorem C4_not_alive_tick_skipped:
  assumes "\<not> okUnlocked h now"
  shows "heartbeat_tick json_Unmarshal h now res = []
         \<and> requests (heartbeat_tick json_Unmarshal h now res) = []
         \<and> error_callbacks (heartbeat_tick json_Unmarshal h now res) = []
         \<and> heartbeat_loop json_Unmarshal h (Tick now res # es) = heartbeat_loop json_Unmarshal h es"
  using assms by (simp add: heartbeat_tick_def)

theorem C4_not_alive_tick_skipped_witness:
  "\<not> okUnlocked (Alive readme_heartbeat 1000) 60000001000
   \<and> heartbeat_tick spec_bodies_Unmarshal (Alive readme_heartbeat 1000) 60000001000
       (GetError ''connection refused'') = []
   \<and> requests (heartbeat_loop spec_bodies_Unmarshal (Alive readme_heartbeat 1000)
       [Tick 60000001000 (GetError ''connection refused'')]) = []"
  using C4_not_alive_tick_skipped [OF readme_not_alive, of spec_bodies_Unmarshal
      "GetError ''connection refused''" "[]"]
  by (simp add: readme_not_alive)

text \<open>
  Claim C10: on a tick that sends the GET and receives a 2xx response whose body cannot be
  read (\<^verbatim>\<open>io.ReadAll\<close> returns an error), the tick spawns no error callback, and the loop
  goes on with the events that follow.
\<close>

theorem C10_body_read_error:
  assumes "okUnlocked h now" and "200 \<le> StatusCode resp" and "StatusCode resp \<le> 299"
    and "Body resp = ReadAllError e"
  shows "heartbeat_tick json_Unmarshal h now (GetOk resp) = [HttpGet (heartbeatURL h)]
         \<and> error_callbacks (heartbeat_tick json_Unmarshal h now (GetOk resp)) = []
         \<and> heartbeat_loop json_Unmarshal h (Tick now (GetOk resp) # es) =
             HttpGet (heartbeatURL h) # heartbeat_loop json_Unmarshal h es"
  using assms(4) by (simp add: heartbeat_tick_2xx [OF assms(1-3)])

theorem C10_body_read_error_witness:
  "okUnlocked (Alive readme_heartbeat 1000) 2000
   \<and> 200 \<le> StatusCode (status_200 (ReadAllError ''unexpected EOF''))
   \<and> StatusCode (status_200 (ReadAllError ''unexpected EOF'')) \<le> 299
   \<and> Body (status_200 (ReadAllError ''unexpected EOF'')) = ReadAllError ''unexpected EOF''
   \<and> error_callbacks (heartbeat_tick spec_bodies_Unmarshal (Alive readme_heartbeat 1000) 2000
        (GetOk (status_200 (ReadAllError ''unexpected EOF'')))) = []
   \<and> requests (heartbeat_loop spec_bodies_Unmarshal (Alive readme_heartbeat 1000)
        [Tick 2000 (GetOk (status_200 (ReadAllError ''unexpected EOF''))),
         Tick 3000 (GetOk (status_200 (ReadAllError ''unexpected EOF'')))]) =
      [heartbeatURL readme_heartbeat, heartbeatURL readme_heartbeat]"
  using
    C10_body_read_error [of "Alive readme_heartbeat 1000" 2000
      "status_200 (ReadAllError ''unexpected EOF'')" "''unexpected EOF''" spec_bodies_Unmarshal
      "[Tick 3000 (GetOk (status_200 (ReadAllError ''unexpected EOF'')))]"]
    C10_body_read_error [of "Alive readme_heartbeat 1000" 3000
      "status_200 (ReadAllError ''unexpected EOF'')" "''unexpected EOF''" spec_bodies_Unmarshal "[]"]
    okUnlocked_inside [of "Alive readme_heartbeat 1000" 3000]
  by (simp add: readme_alive readme_report status_200_def readme_alive_fields)
     (simp add: readme_heartbeat_def)

section \<open>Health requests\<close>

lemma cleanPath_rooted: "\<exists>s. cleanPath p = CHR ''/'' # s"
  by (simp add: cleanPath_def path_Clean_rooted_def Let_def)

lemma clean_is_rooted:
  assumes "cleanPath p = p"
  shows "take 1 p = ''/''"
proof -
  obtain s where "cleanPath p = CHR ''/'' # s"
    using cleanPath_rooted by blast
  with assms have "p = CHR ''/'' # s" by simp
  then show ?thesis by simp
qed

lemma serve_request_dispatched:
  assumes "RequestURI r \<noteq> ''*''" and "cleanPath (Path r) = Path r"
  shows "serve_request h now r = ByHandler (health_handler h now r)"
  using assms clean_is_rooted [OF assms(2)] by (simp add: serve_request_def)

lemma health_handler_cases:
  \<open>(Method r \<noteq> ''GET'' \<longrightarrow>
      health_handler h now r = \<lparr> status = 405, body = ''Method Not Allowed'' @ [CHR 0x0A] \<rparr>)
   \<and> (Method r = ''GET'' \<and> okUnlocked h now \<longrightarrow>
        health_handler h now r = \<lparr> status = 200, body = ''{"ok":true}'' \<rparr>)
   \<and> (Method r = ''GET'' \<and> \<not> okUnlocked h now \<longrightarrow>
        health_handler h now r = \<lparr> status = 503, body = ''{"ok":false}'' \<rparr>)\<close>
  by (simp add: health_handler_def http_Error_def StatusOK_def StatusMethodNotAllowed_def
        StatusServiceUnavailable_def)

lemma clean_healthz:
  "cleanPath ''/healthz'' = ''/healthz'' \<and> cleanPath ''/'' = ''/''
   \<and> cleanPath ''//healthz'' = ''/healthz''"
  by (simp add: cleanPath_def path_Clean_rooted_def)

lemma both_report:
  "lastAlive (Alive both_heartbeat 1000) = 1000
   \<and> sint (livenessThreshold (Alive both_heartbeat 1000)) = 60000000000"
  by (simp add: Alive_max both_heartbeat_def readme_heartbeat_def zeroTime_def time_Second_def)

lemma both_alive: "okUnlocked (Alive both_heartbeat 1000) 2000"
  by (rule okUnlocked_inside) (simp_all add: both_report)

lemma both_not_alive: "\<not> okUnlocked (Alive both_heartbeat 1000) 60000001000"
  by (rule okUnlocked_outside) (simp add: both_report)

text \<open>
  Claim C5, as stated, at concrete inputs: on the monitor of the README configuration with
  port 8080, alive at the time of the request, a GET for the path \<^verbatim>\<open>//healthz\<close> is
  answered with a redirect to \<^verbatim>\<open>/healthz\<close>, not with status 200 and \<^verbatim>\<open>{"ok":true}\<close>, and
  a POST for the same path is answered with the same redirect, not with status 405.
\<close>

theorem C5_counterexample:
  \<open>NewHeartbeat both_Config = Inr both_heartbeat
   \<and> okUnlocked (Alive both_heartbeat 1000) 2000
   \<and> serve_request (Alive both_heartbeat 1000) 2000 (get_request ''//healthz'')
       = RedirectTo ''/healthz''
   \<and> serve_request (Alive both_heartbeat 1000) 2000 (get_request ''//healthz'')
       \<noteq> ByHandler \<lparr> status = 200, body = ''{"ok":true}'' \<rparr>
   \<and> serve_request (Alive both_heartbeat 1000) 2000 (post_request ''//healthz'')
       = RedirectTo ''/healthz''
   \<and> serve_request (Alive both_heartbeat 1000) 2000 (post_request ''//healthz'')
       \<noteq> ByHandler \<lparr> status = 405, body = ''Method Not Allowed'' @ [CHR 0x0A] \<rparr>\<close>
  by (simp add: NewHeartbeat_both both_alive)
     (simp add: serve_request_def get_request_def post_request_def clean_healthz)

text \<open>
  Claim C5 (amended): every request that the mux hands to the handler, that is every
  request whose target is not \<^verbatim>\<open>*\<close> and whose path is in canonical form, is answered by
  the handler, and the handler answers a request whose method is not GET with status 405,
  the same answer whatever the monitor's state and the clock are (no state is read), and
  a GET, whatever the path, with status 200 and body \<^verbatim>\<open>{"ok":true}\<close> when the liveness
  predicate holds at that moment and with status 503 and body \<^verbatim>\<open>{"ok":false}\<close> when it
  does not. A request with a method other than CONNECT whose path is not in canonical
  form is answered with a redirect to the cleaned path, and a request for the target
  \<^verbatim>\<open>*\<close> is answered without the handler.
\<close>

theorem C5_health_endpoint:
  \<open>(RequestURI r \<noteq> ''*'' \<and> cleanPath (Path r) = Path r \<longrightarrow>
      serve_request h now r = ByHandler (health_handler h now r)
      \<and> (Method r \<noteq> ''GET'' \<longrightarrow>
           serve_request h now r =
             ByHandler \<lparr> status = 405, body = ''Method Not Allowed'' @ [CHR 0x0A] \<rparr>
           \<and> serve_request h now r = serve_request h' now' r)
      \<and> (Method r = ''GET'' \<and> okUnlocked h now \<longrightarrow>
           serve_request h now r = ByHandler \<lparr> status = 200, body = ''{"ok":true}'' \<rparr>)
      \<and> (Method r = ''GET'' \<and> \<not> okUnlocked h now \<longrightarrow>
           serve_request h now r = ByHandler \<lparr> status = 503, body = ''{"ok":false}'' \<rparr>))
   \<and> (Method r \<noteq> ''GET'' \<longrightarrow>
        health_handler h now r = \<lparr> status = 405, body = ''Method Not Allowed'' @ [CHR 0x0A] \<rparr>
        \<and> health_handler h now r = health_handler h' now' r)
   \<and> (Method r = ''GET'' \<and> okUnlocked h now \<longrightarrow>
        health_handler h now r = \<lparr> status = 200, body = ''{"ok":true}'' \<rparr>)
   \<and> (Method r = ''GET'' \<and> \<not> okUnlocked h now \<longrightarrow>
        health_handler h now r = \<lparr> status = 503, body = ''{"ok":false}'' \<rparr>)
   \<and> (RequestURI r \<noteq> ''*'' \<and> Method r \<noteq> ''CONNECT'' \<and> cleanPath (Path r) \<noteq> Path r \<longrightarrow>
        serve_request h now r = RedirectTo (cleanPath (Path r)))
   \<and> (RequestURI r = ''*'' \<longrightarrow> serve_request h now r = NotByHandler)\<close>
proof -
  note hc = health_handler_cases [of r h now] health_handler_cases [of r h' now']
  have disp: "serve_request k t r = ByHandler (health_handler k t r)"
    if "RequestURI r \<noteq> ''*''" and "cleanPath (Path r) = Path r" for k t
    using that by (rule serve_request_dispatched)
  have red: "serve_request h now r = RedirectTo (cleanPath (Path r))"
    if "RequestURI r \<noteq> ''*''" and "Method r \<noteq> ''CONNECT''" and "cleanPath (Path r) \<noteq> Path r"
    using that by (simp add: serve_request_def)
  have star: "serve_request h now r = NotByHandler" if "RequestURI r = ''*''"
    using that by (simp add: serve_request_def)
  show ?thesis
    using hc disp [of h now] disp [of h' now'] red star by auto
qed

theorem C5_health_endpoint_witness:
  \<open>RequestURI (get_request ''/healthz'') \<noteq> ''*''
   \<and> cleanPath (Path (get_request ''/healthz'')) = Path (get_request ''/healthz'')
   \<and> Method (get_request ''/healthz'') = ''GET''
   \<and> okUnlocked (Alive both_heartbeat 1000) 2000
   \<and> serve_request (Alive both_heartbeat 1000) 2000 (get_request ''/healthz'')
        = ByHandler \<lparr> status = 200, body = ''{"ok":true}'' \<rparr>
   \<and> \<not> okUnlocked (Alive both_heartbeat 1000) 60000001000
   \<and> serve_request (Alive both_heartbeat 1000) 60000001000 (get_request ''/healthz'')
        = ByHandler \<lparr> status = 503, body = ''{"ok":false}'' \<rparr>
   \<and> RequestURI (post_request ''/'') \<noteq> ''*''
   \<and> cleanPath (Path (post_request ''/'')) = Path (post_request ''/'')
   \<and> Method (post_request ''/'') \<noteq> ''GET''
   \<and> serve_request (Alive both_heartbeat 1000) 2000 (post_request ''/'')
        = ByHandler \<lparr> status = 405, body = ''Method Not Allowed'' @ [CHR 0x0A] \<rparr>
   \<and> Method (post_request ''//healthz'') \<noteq> ''CONNECT''
   \<and> cleanPath (Path (post_request ''//healthz'')) \<noteq> Path (post_request ''//healthz'')
   \<and> serve_request (Alive both_heartbeat 1000) 2000 (post_request ''//healthz'')
        = RedirectTo ''/healthz''
   \<and> RequestURI \<lparr> Method = ''OPTIONS'', Path = ''*'', RequestURI = ''*'' \<rparr> = ''*''
   \<and> serve_request (Alive both_heartbeat 1000) 2000
        \<lparr> Method = ''OPTIONS'', Path = ''*'', RequestURI = ''*'' \<rparr> = NotByHandler\<close>
  using
    C5_health_endpoint [of \<open>get_request ''/healthz''\<close> "Alive both_heartbeat 1000" 2000
      both_heartbeat 0]
    C5_health_endpoint [of \<open>get_request ''/healthz''\<close> "Alive both_heartbeat 1000" 60000001000
      both_heartbeat 0]
    C5_health_endpoint [of \<open>post_request ''/''\<close> "Alive both_heartbeat 1000" 2000
      both_heartbeat 0]
    C5_health_endpoint [of \<open>post_request ''//healthz''\<close> "Alive both_heartbeat 1000" 2000
      both_heartbeat 0]
    C5_health_endpoint [of \<open>\<lparr> Method = ''OPTIONS'', Path = ''*'', RequestURI = ''*'' \<rparr>\<close>
      "Alive both_heartbeat 1000" 2000 both_heartbeat 0]
  by (simp add: both_alive both_not_alive get_request_def post_request_def clean_healthz)

section \<open>Validation of the configuration\<close>

text \<open>
  Claim C6: a configuration with no push URL and port zero is refused: \<^verbatim>\<open>NewHeartbeat\<close>
  returns an error and no monitor (the function has no other effect); when the checks
  before this one pass, the error is \<^verbatim>\<open>heartbeat URL must be set\<close>.
\<close>

theorem C6_nothing_configured:
  assumes "HeartbeatURL cfg = []" and "Port cfg = 0"
  shows "isl (NewHeartbeat cfg) \<and> (\<forall>h. NewHeartbeat cfg \<noteq> Inr h)
         \<and> (0 < sint (LivenessThreshold cfg) \<and> 0 < sint (HeartbeatInterval cfg)
            \<and> (HTTPTimeout cfg = 0 \<or> sint (HTTPTimeout cfg) < sint (HeartbeatInterval cfg)) \<longrightarrow>
              NewHeartbeat cfg = Inl (Error ''heartbeat URL must be set''))"
  using assms by (auto simp: NewHeartbeat_def)

theorem C6_nothing_configured_witness:
  "HeartbeatURL (readme_Config\<lparr>HeartbeatURL := []\<rparr>) = []
   \<and> Port (readme_Config\<lparr>HeartbeatURL := []\<rparr>) = 0
   \<and> NewHeartbeat (readme_Config\<lparr>HeartbeatURL := []\<rparr>) = Inl (Error ''heartbeat URL must be set'')"
  using C6_nothing_configured [of "readme_Config\<lparr>HeartbeatURL := []\<rparr>"]
  by (simp add: readme_Config_def time_Second_def)

text \<open>
  Claim C7: a configuration whose HTTP timeout is set (not zero) and is at least the
  heartbeat interval is refused: \<^verbatim>\<open>NewHeartbeat\<close> returns an error and no monitor (the
  error \<^verbatim>\<open>timeout must be less than heartbeat interval\<close> when the two checks before
  this one pass); so in every configuration that is accepted, a timeout that is set is
  strictly less than the heartbeat interval.
\<close>

theorem C7_timeout_not_below_interval:
  "(HTTPTimeout cfg \<noteq> 0 \<and> sint (HeartbeatInterval cfg) \<le> sint (HTTPTimeout cfg) \<longrightarrow>
      isl (NewHeartbeat cfg) \<and> (\<forall>h. NewHeartbeat cfg \<noteq> Inr h))
   \<and> (0 < sint (LivenessThreshold cfg) \<and> 0 < sint (HeartbeatInterval cfg)
       \<and> HTTPTimeout cfg \<noteq> 0 \<and> sint (HeartbeatInterval cfg) \<le> sint (HTTPTimeout cfg) \<longrightarrow>
         NewHeartbeat cfg = Inl (Error ''timeout must be less than heartbeat interval''))
   \<and> (NewHeartbeat cfg = Inr h \<and> HTTPTimeout cfg \<noteq> 0 \<longrightarrow>
         sint (HTTPTimeout cfg) < sint (HeartbeatInterval cfg))"
  by (auto simp: NewHeartbeat_def Let_def split: if_splits)

theorem C7_timeout_not_below_interval_witness:
  "HTTPTimeout (readme_Config\<lparr>HTTPTimeout := 30 * time_Second\<rparr>) \<noteq> 0
   \<and> sint (HeartbeatInterval (readme_Config\<lparr>HTTPTimeout := 30 * time_Second\<rparr>))
       \<le> sint (HTTPTimeout (readme_Config\<lparr>HTTPTimeout := 30 * time_Second\<rparr>))
   \<and> NewHeartbeat (readme_Config\<lparr>HTTPTimeout := 30 * time_Second\<rparr>)
       = Inl (Error ''timeout must be less than heartbeat interval'')
   \<and> NewHeartbeat port_only_Config = Inr port_only_heartbeat
   \<and> HTTPTimeout port_only_Config \<noteq> 0
   \<and> sint (HTTPTimeout port_only_Config) < sint (HeartbeatInterval port_only_Config)"
  using C7_timeout_not_below_interval [of "readme_Config\<lparr>HTTPTimeout := 30 * time_Second\<rparr>"
          readme_heartbeat]
        C7_timeout_not_below_interval [of port_only_Config port_only_heartbeat]
  by (simp add: NewHeartbeat_port_only)
     (simp add: readme_Config_def port_only_Config_def time_Second_def)

lemma NewHeartbeat_accepts:
  assumes "0 < sint (LivenessThreshold cfg)" and "0 < sint (HeartbeatInterval cfg)"
    and "HTTPTimeout cfg = 0 \<or> sint (HTTPTimeout cfg) < sint (HeartbeatInterval cfg)"
    and "0 \<le> Port cfg" and "Port cfg \<le> 65535"
    and "HeartbeatURL cfg \<noteq> [] \<or> Port cfg \<noteq> 0"
  shows "NewHeartbeat cfg =
           Inr \<lparr> heartbeatInterval = HeartbeatInterval cfg,
                 livenessThreshold = LivenessThreshold cfg,
                 heartbeatURL = HeartbeatURL cfg,
                 lastAlive = zeroTime,
                 client_Timeout =
                   (if HTTPTimeout cfg = 0 then
                      (if sint (HeartbeatInterval cfg - time_Second) < sint time_Second
                       then time_Second else HeartbeatInterval cfg - time_Second)
                    else HTTPTimeout cfg),
                 onError = OnError cfg,
                 started = False,
                 serverPort = Port cfg \<rparr>"
  using assms by (auto simp: NewHeartbeat_def Let_def)

lemma NewHeartbeat_Inr_valid:
  assumes "NewHeartbeat cfg = Inr h"
  shows "HTTPTimeout cfg = 0 \<or> sint (HTTPTimeout cfg) < sint (HeartbeatInterval cfg)"
    and "0 \<le> Port cfg" and "Port cfg \<le> 65535"
    and "HeartbeatURL cfg \<noteq> [] \<or> Port cfg \<noteq> 0"
  using assms by (auto simp: NewHeartbeat_def Let_def split: if_splits)

lemma effective_timeout:
  assumes "NewHeartbeat cfg = Inr h"
  shows "(HTTPTimeout cfg = 0 \<longrightarrow>
            sint (client_Timeout h) =
              max (sint (HeartbeatInterval cfg) - sint time_Second) (sint time_Second))
         \<and> (HTTPTimeout cfg \<noteq> 0 \<longrightarrow> client_Timeout h = HTTPTimeout cfg)"
proof -
  note f = NewHeartbeat_Inr_fields [OF assms]
  have sub: "sint (HeartbeatInterval cfg - time_Second) = sint (HeartbeatInterval cfg) - 1000000000"
    using f(2) by (rule sint_minus_Second)
  show ?thesis
    by (simp add: f(3) sub sint_time_Second max_def)
qed

text \<open>
  Claim C8: \<^verbatim>\<open>NewHeartbeat\<close> accepts exactly the valid configurations (positive threshold
  and interval, a timeout that is zero or less than the interval, a port in
  \<open>[0, 65535]\<close>, a push URL or a port), and returns a monitor for each of them. The
  timeout of the HTTP client of that monitor is, when the configured timeout is zero, the
  greater of the heartbeat interval minus one second and one second (as integers: the
  subtraction does not wrap around), and the configured timeout when that is not zero.
\<close>

theorem C8_effective_timeout:
  "(0 < sint (LivenessThreshold cfg) \<and> 0 < sint (HeartbeatInterval cfg)
    \<and> (HTTPTimeout cfg = 0 \<or> sint (HTTPTimeout cfg) < sint (HeartbeatInterval cfg))
    \<and> 0 \<le> Port cfg \<and> Port cfg \<le> 65535
    \<and> (HeartbeatURL cfg \<noteq> [] \<or> Port cfg \<noteq> 0) \<longrightarrow>
      (\<exists>h. NewHeartbeat cfg = Inr h
         \<and> (HTTPTimeout cfg = 0 \<longrightarrow>
              sint (client_Timeout h) =
                max (sint (HeartbeatInterval cfg) - sint time_Second) (sint time_Second))
         \<and> (HTTPTimeout cfg \<noteq> 0 \<longrightarrow> client_Timeout h = HTTPTimeout cfg)))
   \<and> (NewHeartbeat cfg = Inr h \<longrightarrow>
        0 < sint (LivenessThreshold cfg) \<and> 0 < sint (HeartbeatInterval cfg)
        \<and> (HTTPTimeout cfg = 0 \<or> sint (HTTPTimeout cfg) < sint (HeartbeatInterval cfg))
        \<and> 0 \<le> Port cfg \<and> Port cfg \<le> 65535
        \<and> (HeartbeatURL cfg \<noteq> [] \<or> Port cfg \<noteq> 0)
        \<and> (HTTPTimeout cfg = 0 \<longrightarrow>
              sint (client_Timeout h) =
                max (sint (HeartbeatInterval cfg) - sint time_Second) (sint time_Second))
        \<and> (HTTPTimeout cfg \<noteq> 0 \<longrightarrow> client_Timeout h = HTTPTimeout cfg))
   \<and> sint time_Second = 1000000000"
proof (intro conjI impI)
  assume v: "0 < sint (LivenessThreshold cfg) \<and> 0 < sint (HeartbeatInterval cfg)
    \<and> (HTTPTimeout cfg = 0 \<or> sint (HTTPTimeout cfg) < sint (HeartbeatInterval cfg))
    \<and> 0 \<le> Port cfg \<and> Port cfg \<le> 65535
    \<and> (HeartbeatURL cfg \<noteq> [] \<or> Port cfg \<noteq> 0)"
  then obtain k where k: "NewHeartbeat cfg = Inr k"
    using NewHeartbeat_accepts [of cfg] by blast
  show "\<exists>h. NewHeartbeat cfg = Inr h
         \<and> (HTTPTimeout cfg = 0 \<longrightarrow>
              sint (client_Timeout h) =
                max (sint (HeartbeatInterval cfg) - sint time_Second) (sint time_Second))
         \<and> (HTTPTimeout cfg \<noteq> 0 \<longrightarrow> client_Timeout h = HTTPTimeout cfg)"
    using k effective_timeout [OF k] by blast
next
  assume a: "NewHeartbeat cfg = Inr h"
  show "0 < sint (LivenessThreshold cfg)" "0 < sint (HeartbeatInterval cfg)"
    by (rule NewHeartbeat_Inr_fields [OF a])+
  show "HTTPTimeout cfg = 0 \<or> sint (HTTPTimeout cfg) < sint (HeartbeatInterval cfg)"
    "0 \<le> Port cfg" "Port cfg \<le> 65535" "HeartbeatURL cfg \<noteq> [] \<or> Port cfg \<noteq> 0"
    by (rule NewHeartbeat_Inr_valid [OF a])+
  show "sint (client_Timeout h) =
          max (sint (HeartbeatInterval cfg) - sint time_Second) (sint time_Second)"
    if "HTTPTimeout cfg = 0"
    using that effective_timeout [OF a] by blast
  show "client_Timeout h = HTTPTimeout cfg" if "HTTPTimeout cfg \<noteq> 0"
    using that effective_timeout [OF a] by blast
next
  show "sint time_Second = 1000000000" by (rule sint_time_Second)
qed

theorem C8_effective_timeout_witness:
  "NewHeartbeat readme_Config = Inr readme_heartbeat
   \<and> HTTPTimeout readme_Config = 0
   \<and> sint (HeartbeatInterval readme_Config) = 30000000000
   \<and> sint (client_Timeout readme_heartbeat) = 29000000000
   \<and> NewHeartbeat ten_seconds_Config = Inr ten_seconds_heartbeat
   \<and> HTTPTimeout ten_seconds_Config = 0
   \<and> sint (HeartbeatInterval ten_seconds_Config) = 10000000000
   \<and> sint (client_Timeout ten_seconds_heartbeat) = 9000000000
   \<and> NewHeartbeat half_second_Config = Inr half_second_heartbeat
   \<and> HTTPTimeout half_second_Config = 0
   \<and> sint (HeartbeatInterval half_second_Config) = 500000000
   \<and> sint (client_Timeout half_second_heartbeat) = 1000000000
   \<and> NewHeartbeat port_only_Config = Inr port_only_heartbeat
   \<and> HTTPTimeout port_only_Config \<noteq> 0
   \<and> client_Timeout port_only_heartbeat = HTTPTimeout port_only_Config"
  using C8_effective_timeout [of readme_Config readme_heartbeat]
        C8_effective_timeout [of ten_seconds_Config ten_seconds_heartbeat]
        C8_effective_timeout [of half_second_Config half_second_heartbeat]
        C8_effective_timeout [of port_only_Config port_only_heartbeat]
  by (simp add: NewHeartbeat_readme NewHeartbeat_port_only NewHeartbeat_ten_seconds
        NewHeartbeat_half_second)
     (simp add: readme_Config_def readme_heartbeat_def port_only_Config_def port_only_heartbeat_def
        ten_seconds_Config_def ten_seconds_heartbeat_def half_second_Config_def
        half_second_heartbeat_def time_Second_def)

section \<open>Starting the monitor\<close>

lemma Start_started: "started h \<Longrightarrow> Start h = (h, [])"
  by (simp add: Start_def)

lemma Start_unstarted:
  "\<not> started h \<Longrightarrow>
     Start h =
       (h\<lparr>started := True\<rparr>,
        (if heartbeatURL h = [] then [] else [PushSchedule (heartbeatInterval h)]) @
        (if serverPort h = 0 then [] else [HealthListener (serverPort h)]))"
  by (simp add: Start_def startHeartbeatLocked_def startHttpServerLocked_def Let_def)

lemma started_Start: "started (fst (Start h))"
  by (simp add: Start_def Let_def)

lemma Start_calls_started: "started h \<Longrightarrow> Start_calls h n = (h, [])"
  by (induction n) (simp_all add: Start_started)

lemma Start_calls_Suc: "Start_calls h (Suc n) = Start h"
proof -
  obtain h' launched where s: "Start h = (h', launched)"
    by (cases "Start h")
  then have "started h'"
    using started_Start [of h] by simp
  then have "Start_calls h' n = (h', [])"
    by (rule Start_calls_started)
  with s show ?thesis by simp
qed

text \<open>
  Claim C9, as stated, at a concrete input: the monitor built from a configuration with a
  port and no push URL launches no push schedule when \<^verbatim>\<open>Start\<close> is called twice, not
  exactly one.
\<close>

theorem C9_counterexample:
  "NewHeartbeat port_only_Config = Inr port_only_heartbeat
   \<and> length (filter is_PushSchedule (snd (Start_calls port_only_heartbeat 2))) \<noteq> 1"
proof -
  have "Start_calls port_only_heartbeat 2 = Start port_only_heartbeat"
    using Start_calls_Suc [of port_only_heartbeat "Suc 0"] by (simp only: numeral_2_eq_2)
  moreover have "snd (Start port_only_heartbeat) = [HealthListener 8080]"
    by (simp add: Start_unstarted port_only_heartbeat_def)
  ultimately show ?thesis
    by (simp add: NewHeartbeat_port_only)
qed

text \<open>
  Claim C9 (amended): \<^verbatim>\<open>Start\<close> is idempotent. On a monitor that is not started, the call
  sets \<open>started\<close> and launches the push schedule if a push URL is configured and the
  health listener if a port is configured; on a started monitor the call changes nothing
  and launches nothing, so a second call after a first is without effect and any number
  of calls launches what the first one does. Two calls on a monitor that is not started
  launch exactly one push schedule when a push URL is configured and none otherwise, and
  exactly one listener when a port is configured and none otherwise; no number of calls
  launches more than one of either.
\<close>

theorem C9_Start_idempotent:
  "(\<not> started h \<longrightarrow>
      Start h =
        (h\<lparr>started := True\<rparr>,
         (if heartbeatURL h = [] then [] else [PushSchedule (heartbeatInterval h)]) @
         (if serverPort h = 0 then [] else [HealthListener (serverPort h)])))
   \<and> (started h \<longrightarrow> Start h = (h, []))
   \<and> Start (fst (Start h)) = (fst (Start h), [])
   \<and> Start_calls h (Suc n) = Start h
   \<and> (\<not> started h \<longrightarrow>
        length (filter is_PushSchedule (snd (Start_calls h 2))) = (if heartbeatURL h = [] then 0 else 1)
        \<and> length (filter is_HealthListener (snd (Start_calls h 2))) = (if serverPort h = 0 then 0 else 1))
   \<and> length (filter is_PushSchedule (snd (Start_calls h n))) \<le> 1
   \<and> length (filter is_HealthListener (snd (Start_calls h n))) \<le> 1"
proof -
  have two: "Start_calls h 2 = Start h"
    using Start_calls_Suc [of h "Suc 0"] by (simp add: numeral_2_eq_2)
  have cnt: "length (filter is_PushSchedule (snd (Start h))) \<le> 1
             \<and> length (filter is_HealthListener (snd (Start h))) \<le> 1" for h
    by (cases "started h") (simp_all add: Start_started Start_unstarted)
  have any: "length (filter is_PushSchedule (snd (Start_calls h n))) \<le> 1
             \<and> length (filter is_HealthListener (snd (Start_calls h n))) \<le> 1"
  proof (cases n)
    case 0
    then show ?thesis by simp
  next
    case (Suc m)
    then show ?thesis using cnt [of h] by (simp only: Start_calls_Suc)
  qed
  have again: "Start (fst (Start h)) = (fst (Start h), [])"
    by (rule Start_started) (rule started_Start)
  show ?thesis
    using any again Start_calls_Suc [of h n]
    by (auto simp: two Start_started Start_unstarted)
qed

theorem C9_Start_idempotent_witness:
  "NewHeartbeat both_Config = Inr both_heartbeat
   \<and> \<not> started both_heartbeat
   \<and> snd (Start both_heartbeat) = [PushSchedule (30 * time_Second), HealthListener 8080]
   \<and> started (fst (Start both_heartbeat))
   \<and> snd (Start (fst (Start both_heartbeat))) = []
   \<and> snd (Start_calls both_heartbeat 2) = [PushSchedule (30 * time_Second), HealthListener 8080]
   \<and> length (filter is_PushSchedule (snd (Start_calls both_heartbeat 2))) = 1
   \<and> length (filter is_HealthListener (snd (Start_calls both_heartbeat 2))) = 1"
  using C9_Start_idempotent [of both_heartbeat "Suc 0"] started_Start [of both_heartbeat]
  by (simp add: NewHeartbeat_both numeral_2_eq_2)
     (simp add: both_heartbeat_def readme_heartbeat_def)

end
